theory Spec2Isabelle
  imports Main
begin

section \<open>The API client: a fetch wrapper with timeout and error normalisation\<close>

text \<open>
  The module under study exports \<open>request\<close> (through the verb helpers of \<open>api\<close>),
  \<open>uploadFile\<close> and the class \<open>ApiError\<close>. Both functions are asynchronous: the
  model gives, for one call, the way its promise settles together with the state of the
  call's timer and the list of network calls it issued.

  The platform primitives the module calls (\<open>fetch\<close>, \<open>JSON.stringify\<close>,
  \<open>JSON.parse\<close>, the build-time variable \<open>VITE_API_BASE_URL\<close>) are not code of
  the module: they are parameters, collected in the record \<open>platform\<close>.
\<close>

subsection \<open>JavaScript values\<close>

text \<open>
  JSON values are what \<open>JSON.parse\<close> and \<open>response.json()\<close> produce; neither ever
  produces \<open>undefined\<close>. Numbers are kept as integers: the module only tests a number
  for truthiness, and every non-zero number behaves like a non-zero integer there.
\<close>

datatype json =
    JNull
  | JBool bool
  | JNum int
  | JStr string
  | JArr "json list"
  | JObj "(string \<times> json) list"

text \<open>A value of type \<open>unknown\<close>: \<open>undefined\<close>, \<open>NaN\<close>, or a JSON value.\<close>

datatype jsval = Undefined | NaN | Val json

text \<open>The truthiness test of \<open>body ? ... : ...\<close> and \<open>!text\<close>.\<close>

fun truthy :: "jsval \<Rightarrow> bool" where
  "truthy Undefined = False"
| "truthy NaN = False"
| "truthy (Val JNull) = False"
| "truthy (Val (JBool b)) = b"
| "truthy (Val (JNum n)) = (n \<noteq> 0)"
| "truthy (Val (JStr s)) = (s \<noteq> [])"
| "truthy (Val (JArr xs)) = True"
| "truthy (Val (JObj kvs)) = True"

subsection \<open>Thrown values and \<open>ApiError\<close>\<close>

text \<open>
  Anything can be thrown. The handler of \<open>request\<close> tells three kinds apart with
  \<open>instanceof\<close>: an \<open>ApiError\<close> (fields \<open>status\<close>, \<open>statusText\<close>, \<open>data\<close>; \<open>data\<close> is
  \<open>undefined\<close> when the constructor gets two arguments), any other \<open>Error\<close> (with its
  \<open>name\<close> and \<open>message\<close>), and a value that is no \<open>Error\<close> at all.
\<close>

datatype thrown =
    ApiError nat string jsval
  | JsError string string
  | NonError jsval

text \<open>How the promise of an asynchronous call settles, if it does.\<close>

datatype 'a promise = Resolved 'a | Rejected thrown | Pending

subsection \<open>Requests, responses and the network\<close>

datatype jsfile = File string nat

datatype part = FilePart jsfile | FieldPart string

datatype payload = Text string | FormData "(string \<times> part) list"

datatype signal = CallerSignal | ControllerSignal

text \<open>The second argument of \<open>fetch\<close>; an absent property is \<open>None\<close>.\<close>

record RequestInit =
  init_method :: "string option"
  init_signal :: "signal option"
  init_credentials :: "string option"
  init_headers :: "(string \<rightharpoonup> string) option"
  init_body :: "payload option"

text \<open>
  \<open>HeadersInit\<close>, the type of the \<open>headers\<close> option: a plain object, a
  \<open>Headers\<close> instance, or an array of name-value pairs.
\<close>

datatype HeadersInit =
    PlainObject "string \<rightharpoonup> string"
  | HeadersInstance "(string \<times> string) list"
  | PairArray "(string \<times> string) list"

text \<open>
  \<open>RequestOptions\<close>: \<open>body\<close> and \<open>timeout\<close>, and the pass-through properties of
  \<open>RequestInit\<close> that the module touches.
\<close>

record RequestOptions =
  body :: jsval
  timeout :: "nat option"
  http_method :: "string option"
  signal :: "signal option"
  credentials :: "string option"
  headers :: "HeadersInit option"

text \<open>
  A response: status line, and what reading the body to its end gives: the text, the
  rejection of the read, or nothing, when the body never finishes.
\<close>

record response =
  status :: nat
  statusText :: string
  body_read :: "string promise"

text \<open>\<open>response.ok\<close>: the status is in the range 200-299.\<close>

definition ok :: "response \<Rightarrow> bool" where
  "ok r = (200 \<le> status r \<and> status r \<le> 299)"

text \<open>
  What the network does with one call when nobody aborts it: a response arrives after
  some milliseconds, the call fails after some milliseconds, or nothing ever happens.
\<close>

datatype fetch_outcome = Responds nat response | Fails nat thrown | Silent

record platform =
  VITE_API_BASE_URL :: "string option"
  stringify :: "jsval \<Rightarrow> thrown + string"
  parse :: "string \<Rightarrow> string + json"
  net :: "string \<Rightarrow> RequestInit \<Rightarrow> fetch_outcome"

text \<open>\<open>import.meta.env.VITE_API_BASE_URL || '/api'\<close>: unset and empty both fall back.\<close>

definition API_BASE_URL :: "platform \<Rightarrow> string" where
  "API_BASE_URL p =
     (case VITE_API_BASE_URL p of
        None \<Rightarrow> ''/api''
      | Some u \<Rightarrow> if u = [] then ''/api'' else u)"

text \<open>\<open>JSON.parse\<close> throws a \<open>SyntaxError\<close> carrying the parser's message.\<close>

definition JSON_parse :: "platform \<Rightarrow> string \<Rightarrow> thrown + json" where
  "JSON_parse p text =
     (case parse p text of
        Inl message \<Rightarrow> Inl (JsError ''SyntaxError'' message)
      | Inr v \<Rightarrow> Inr v)"

text \<open>\<open>response.text()\<close> and \<open>response.json()\<close>.\<close>

definition response_text :: "response \<Rightarrow> string promise" where
  "response_text r = body_read r"

definition response_json :: "platform \<Rightarrow> response \<Rightarrow> json promise" where
  "response_json p r =
     (case body_read r of
        Resolved text \<Rightarrow>
          (case JSON_parse p text of Inl e \<Rightarrow> Rejected e | Inr v \<Rightarrow> Resolved v)
      | Rejected e \<Rightarrow> Rejected e
      | Pending \<Rightarrow> Pending)"

subsection \<open>The timer and the state of one call\<close>

datatype timer = Unset | Armed nat | Fired | Cleared

record world =
  timer :: timer
  calls :: "(string \<times> RequestInit) list"

text \<open>
  \<open>setTimeout(callback, ms)\<close> in a browser takes its delay as a signed 32-bit
  integer: the number is reduced modulo \<open>2^32\<close>, and a result that is negative as a
  signed number counts as 0.
\<close>

definition timer_delay :: "nat \<Rightarrow> nat" where
  "timer_delay ms = (let m = ms mod 4294967296 in if m < 2147483648 then m else 0)"

definition setTimeout :: "nat \<Rightarrow> world \<Rightarrow> world" where
  "setTimeout ms w = w\<lparr>timer := Armed (timer_delay ms)\<rparr>"

text \<open>\<open>clearTimeout\<close> disarms a pending timer and does nothing otherwise.\<close>

definition clearTimeout :: "world \<Rightarrow> world" where
  "clearTimeout w =
     (case timer w of
        Armed d \<Rightarrow> w\<lparr>timer := Cleared\<rparr>
      | _ \<Rightarrow> w)"

text \<open>
  The \<open>DOMException\<close> with which \<open>fetch\<close> rejects once its signal is aborted; it is
  an instance of \<open>Error\<close>.
\<close>

definition abort_error :: thrown where
  "abort_error = JsError ''AbortError'' ''signal is aborted without reason''"

text \<open>
  \<open>await fetch(url, init)\<close>. The call is recorded. A timer armed with delay \<open>d\<close>
  fires unless the network settles the call strictly earlier; its callback is
  \<open>controller.abort()\<close>, which rejects the call when the controller's signal is the
  one passed in \<open>init\<close>.
\<close>

definition settles_before :: "fetch_outcome \<Rightarrow> nat \<Rightarrow> bool" where
  "settles_before out d =
     (case out of
        Responds t r \<Rightarrow> t < d
      | Fails t e \<Rightarrow> t < d
      | Silent \<Rightarrow> False)"

definition fetch ::
  "platform \<Rightarrow> string \<Rightarrow> RequestInit \<Rightarrow> world \<Rightarrow> response promise \<times> world" where
  "fetch p url init w =
     (let out = net p url init;
          w1 = w\<lparr>calls := calls w @ [(url, init)]\<rparr>;
          fired = (case timer w of Armed d \<Rightarrow> \<not> settles_before out d | _ \<Rightarrow> False);
          w2 = (if fired then w1\<lparr>timer := Fired\<rparr> else w1)
      in if fired \<and> init_signal init = Some ControllerSignal
         then (Rejected abort_error, w2)
         else (case out of
                 Responds t r \<Rightarrow> (Resolved r, w2)
               | Fails t e \<Rightarrow> (Rejected e, w2)
               | Silent \<Rightarrow> (Pending, w2)))"

subsection \<open>\<open>request\<close>\<close>

text \<open>Line 57: \<open>body ? JSON.stringify(body) : undefined\<close>.\<close>

definition request_body :: "platform \<Rightarrow> jsval \<Rightarrow> thrown + string option" where
  "request_body p b =
     (if truthy b
      then (case stringify p b of Inl e \<Rightarrow> Inl e | Inr s \<Rightarrow> Inr (Some s))
      else Inr None)"

text \<open>The decimal numeral of an array index, as a property key.\<close>

function decimal :: "nat \<Rightarrow> string" where
  "decimal n =
     (if n < 10 then [''0123456789'' ! n]
      else decimal (n div 10) @ [''0123456789'' ! (n mod 10)])"
  by pat_completeness auto
termination
  by (relation "measure id") auto

declare decimal.simps [simp del]

text \<open>
  The object spread \<open>...init.headers\<close> copies the own enumerable properties of its
  operand. \<open>undefined\<close> has none. A plain object has its headers. A \<open>Headers\<close>
  instance has none: its entries are not properties. An array has its indices, each
  holding a pair, which \<open>fetch\<close> later reads as the string \<open>name,value\<close>.
\<close>

definition spread_headers :: "HeadersInit option \<Rightarrow> (string \<rightharpoonup> string)" where
  "spread_headers h =
     (case h of
        None \<Rightarrow> Map.empty
      | Some (PlainObject m) \<Rightarrow> m
      | Some (HeadersInstance entries) \<Rightarrow> Map.empty
      | Some (PairArray pairs) \<Rightarrow>
          map_of (zip (map decimal [0..<length pairs])
                      (map (\<lambda>(name, v). name @ '','' @ v) pairs)))"

text \<open>
  Lines 53-56: the object \<open>{'Content-Type': 'application/json', ...init.headers}\<close>.
\<close>

definition request_headers :: "HeadersInit option \<Rightarrow> (string \<rightharpoonup> string)" where
  "request_headers h = [''Content-Type'' \<mapsto> ''application/json''] ++ spread_headers h"

text \<open>
  Lines 50-57: \<open>...init\<close> first, then \<open>signal\<close>, \<open>credentials\<close>, \<open>headers\<close> and
  \<open>body\<close>, which replace whatever the caller passed under these names.
\<close>

definition request_init :: "RequestOptions \<Rightarrow> string option \<Rightarrow> RequestInit" where
  "request_init init b =
     \<lparr>init_method = http_method init,
      init_signal = Some ControllerSignal,
      init_credentials = Some ''include'',
      init_headers = Some (request_headers (headers init)),
      init_body = map_option Text b\<rparr>"

text \<open>Lines 64 and 131: \<open>await response.json().catch(() => null)\<close>.\<close>

definition errorData :: "platform \<Rightarrow> response \<Rightarrow> json promise" where
  "errorData p r =
     (case response_json p r of
        Resolved v \<Rightarrow> Resolved v
      | Rejected e \<Rightarrow> Resolved JNull
      | Pending \<Rightarrow> Pending)"

text \<open>
  The \<open>try\<close> block, lines 49-72: \<open>Rejected\<close> is a value thrown inside the block,
  \<open>Resolved\<close> the value returned, \<open>Pending\<close> an \<open>await\<close> that never resumes.
\<close>

definition request_try ::
  "platform \<Rightarrow> string \<Rightarrow> jsval \<Rightarrow> RequestOptions \<Rightarrow> world \<Rightarrow> json promise \<times> world" where
  "request_try p endpoint b init w =
     (case request_body p b of
        Inl e \<Rightarrow> (Rejected e, w)
      | Inr s \<Rightarrow>
          (case fetch p (API_BASE_URL p @ endpoint) (request_init init s) w of
             (Pending, w1) \<Rightarrow> (Pending, w1)
           | (Rejected e, w1) \<Rightarrow> (Rejected e, w1)
           | (Resolved r, w1) \<Rightarrow>
               (let w2 = clearTimeout w1
                in if \<not> ok r
                   then (case errorData p r of
                           Pending \<Rightarrow> (Pending, w2)
                         | Rejected e \<Rightarrow> (Rejected e, w2)
                         | Resolved d \<Rightarrow>
                             (Rejected (ApiError (status r) (statusText r) (Val d)), w2))
                   else (case response_text r of
                           Pending \<Rightarrow> (Pending, w2)
                         | Rejected e \<Rightarrow> (Rejected e, w2)
                         | Resolved text \<Rightarrow>
                             if text = [] then (Resolved (JObj []), w2)
                             else (case JSON_parse p text of
                                     Inl e \<Rightarrow> (Rejected e, w2)
                                   | Inr v \<Rightarrow> (Resolved v, w2))))))"

text \<open>The \<open>catch\<close> block after its \<open>clearTimeout\<close>, lines 76-87: what is thrown on.\<close>

definition request_catch :: "thrown \<Rightarrow> thrown" where
  "request_catch error =
     (case error of
        ApiError s t d \<Rightarrow> error
      | JsError name message \<Rightarrow>
          if name = ''AbortError'' then ApiError 408 ''Request Timeout'' Undefined
          else ApiError 0 message Undefined
      | NonError v \<Rightarrow> ApiError 0 ''Unknown Error'' Undefined)"

text \<open>Line 42: \<open>timeout = 30000\<close> applies when the option is \<open>undefined\<close>.\<close>

definition timeout_of :: "RequestOptions \<Rightarrow> nat" where
  "timeout_of options = (case timeout options of None \<Rightarrow> 30000 | Some t \<Rightarrow> t)"

definition request :: "platform \<Rightarrow> string \<Rightarrow> RequestOptions \<Rightarrow> json promise \<times> world" where
  "request p endpoint options =
     (let w0 = setTimeout (timeout_of options) \<lparr>timer = Unset, calls = []\<rparr>
      in case request_try p endpoint (body options) options w0 of
           (Pending, w) \<Rightarrow> (Pending, w)
         | (Resolved v, w) \<Rightarrow> (Resolved v, w)
         | (Rejected error, w) \<Rightarrow> (Rejected (request_catch error), clearTimeout w))"

subsection \<open>\<open>uploadFile\<close>\<close>

text \<open>
  \<open>additionalData\<close> is given by its entries, in the order \<open>Object.entries\<close> lists
  them; \<open>None\<close> is an omitted argument.
\<close>

definition formData :: "jsfile \<Rightarrow> (string \<times> string) list option \<Rightarrow> (string \<times> part) list" where
  "formData f additionalData =
     (''file'', FilePart f) #
     (case additionalData of
        None \<Rightarrow> []
      | Some entries \<Rightarrow> map (\<lambda>(key, v). (key, FieldPart v)) entries)"

definition upload_init :: "jsfile \<Rightarrow> (string \<times> string) list option \<Rightarrow> RequestInit" where
  "upload_init f additionalData =
     \<lparr>init_method = Some ''POST'',
      init_signal = None,
      init_credentials = Some ''include'',
      init_headers = None,
      init_body = Some (FormData (formData f additionalData))\<rparr>"

definition uploadFile ::
  "platform \<Rightarrow> string \<Rightarrow> jsfile \<Rightarrow> (string \<times> string) list option \<Rightarrow> json promise \<times> world" where
  "uploadFile p endpoint f additionalData =
     (let w0 = \<lparr>timer = Unset, calls = []\<rparr>
      in case fetch p (API_BASE_URL p @ endpoint) (upload_init f additionalData) w0 of
           (Pending, w) \<Rightarrow> (Pending, w)
         | (Rejected e, w) \<Rightarrow> (Rejected e, w)
         | (Resolved r, w) \<Rightarrow>
             if \<not> ok r
             then (case errorData p r of
                     Pending \<Rightarrow> (Pending, w)
                   | Rejected e \<Rightarrow> (Rejected e, w)
                   | Resolved d \<Rightarrow>
                       (Rejected (ApiError (status r) (statusText r) (Val d)), w))
             else (response_json p r, w))"

subsection \<open>The verb helpers\<close>

text \<open>
  Lines 92-107. An omitted \<open>options\<close> argument spreads to nothing: the caller's
  options are then \<open>no_options\<close>. \<open>post\<close>, \<open>put\<close> and \<open>patch\<close> write their
  \<open>body\<close> argument over the one in \<open>options\<close>.
\<close>

definition no_options :: RequestOptions where
  "no_options =
     \<lparr>body = Undefined, timeout = None, http_method = None, signal = None,
      credentials = None, headers = None\<rparr>"

definition api_get :: "platform \<Rightarrow> string \<Rightarrow> RequestOptions \<Rightarrow> json promise \<times> world" where
  "api_get p endpoint options = request p endpoint (options\<lparr>http_method := Some ''GET''\<rparr>)"

definition api_post ::
  "platform \<Rightarrow> string \<Rightarrow> jsval \<Rightarrow> RequestOptions \<Rightarrow> json promise \<times> world" where
  "api_post p endpoint b options =
     request p endpoint (options\<lparr>http_method := Some ''POST'', body := b\<rparr>)"

definition api_put ::
  "platform \<Rightarrow> string \<Rightarrow> jsval \<Rightarrow> RequestOptions \<Rightarrow> json promise \<times> world" where
  "api_put p endpoint b options =
     request p endpoint (options\<lparr>http_method := Some ''PUT'', body := b\<rparr>)"

definition api_patch ::
  "platform \<Rightarrow> string \<Rightarrow> jsval \<Rightarrow> RequestOptions \<Rightarrow> json promise \<times> world" where
  "api_patch p endpoint b options =
     request p endpoint (options\<lparr>http_method := Some ''PATCH'', body := b\<rparr>)"

definition api_delete :: "platform \<Rightarrow> string \<Rightarrow> RequestOptions \<Rightarrow> json promise \<times> world" where
  "api_delete p endpoint options = request p endpoint (options\<lparr>http_method := Some ''DELETE''\<rparr>)"

subsection \<open>Concrete platforms for the worked scenarios\<close>

text \<open>
  A serialiser and a parser given by a small table, and a browser whose build sets no
  base URL and whose network treats every call the same way. They only serve to run the
  model on concrete calls.
\<close>

fun table_stringify :: "jsval \<Rightarrow> thrown + string" where
  "table_stringify (Val JNull) = Inr ''null''"
| "table_stringify (Val (JBool True)) = Inr ''true''"
| "table_stringify (Val (JBool False)) = Inr ''false''"
| "table_stringify (Val (JNum n)) = (if n = 0 then Inr ''0'' else Inr ''1'')"
| "table_stringify (Val (JArr [])) = Inr ''[]''"
| "table_stringify (Val (JObj [])) = Inr ''{}''"
| "table_stringify v = Inl (JsError ''TypeError'' ''cyclic object value'')"

definition table_parse :: "string \<Rightarrow> string + json" where
  "table_parse s =
     (if s = ''[]'' then Inr (JArr [])
      else if s = ''{}'' then Inr (JObj [])
      else if s = ''null'' then Inr JNull
      else if s = ''[1]'' then Inr (JArr [JNum 1])
      else Inl ''Unexpected token'')"

definition browser :: "fetch_outcome \<Rightarrow> platform" where
  "browser out =
     \<lparr>VITE_API_BASE_URL = None, stringify = table_stringify, parse = table_parse,
      net = (\<lambda>url init. out)\<rparr>"

definition reply :: "nat \<Rightarrow> string \<Rightarrow> string \<Rightarrow> response" where
  "reply s t b = \<lparr>status = s, statusText = t, body_read = Resolved b\<rparr>"

text \<open>A response whose status line arrives and whose body never finishes.\<close>

definition stalled :: "nat \<Rightarrow> string \<Rightarrow> response" where
  "stalled s t = \<lparr>status = s, statusText = t, body_read = Pending\<rparr>"

text \<open>The value of one header in the object passed to \<open>fetch\<close>.\<close>

definition sent_header :: "string \<Rightarrow> RequestInit \<Rightarrow> string option" where
  "sent_header k i = (case init_headers i of None \<Rightarrow> None | Some h \<Rightarrow> h k)"

text \<open>
  Options of a caller who sets a content type, a signal and a credentials mode of its
  own: the headers as a plain object, and the same headers as a \<open>Headers\<close> instance.
\<close>

definition plain_options :: RequestOptions where
  "plain_options =
     \<lparr>body = Val (JObj []), timeout = None, http_method = Some ''POST'', signal = Some CallerSignal,
      credentials = Some ''omit'',
      headers = Some (PlainObject [''Content-Type'' \<mapsto> ''text/plain''])\<rparr>"

definition instance_options :: RequestOptions where
  "instance_options =
     plain_options\<lparr>headers := Some (HeadersInstance [(''Content-Type'', ''text/plain'')])\<rparr>"

definition pairs_options :: RequestOptions where
  "pairs_options =
     plain_options\<lparr>headers := Some (PairArray [(''Content-Type'', ''text/plain'')])\<rparr>"

section \<open>Properties\<close>

subsection \<open>Auxiliary facts\<close>

lemma request_init_signal: "init_signal (request_init init b) = Some ControllerSignal"
  by (simp add: request_init_def)

text \<open>A delay below \<open>2^31\<close> is the delay of the timer; no delay is ever lengthened.\<close>

lemma timer_delay_small: "ms < 2147483648 \<Longrightarrow> timer_delay ms = ms"
  by (simp add: timer_delay_def)

lemma timer_delay_le: "timer_delay ms \<le> ms"
  by (simp add: timer_delay_def Let_def)

lemma fetch_armed:
  "init_signal i = Some ControllerSignal \<Longrightarrow>
   fetch p url i \<lparr>timer = Armed d, calls = []\<rparr> =
     (if settles_before (net p url i) d
      then (case net p url i of
              Responds t r \<Rightarrow> Resolved r
            | Fails t e \<Rightarrow> Rejected e
            | Silent \<Rightarrow> Pending,
            \<lparr>timer = Armed d, calls = [(url, i)]\<rparr>)
      else (Rejected abort_error, \<lparr>timer = Fired, calls = [(url, i)]\<rparr>))"
  by (simp add: fetch_def Let_def split: fetch_outcome.splits)

lemma fetch_unset:
  "fetch p url i \<lparr>timer = Unset, calls = []\<rparr> =
     (case net p url i of
        Responds t r \<Rightarrow> Resolved r
      | Fails t e \<Rightarrow> Rejected e
      | Silent \<Rightarrow> Pending,
      \<lparr>timer = Unset, calls = [(url, i)]\<rparr>)"
  by (simp add: fetch_def Let_def split: fetch_outcome.splits)

text \<open>The request once its body is serialised and the timer fires first.\<close>

lemma request_timer_first:
  assumes "request_body p (body options) = Inr b"
    and "\<not> settles_before (net p (API_BASE_URL p @ endpoint) (request_init options b))
           (timer_delay (timeout_of options))"
  shows "request p endpoint options =
     (Rejected (ApiError 408 ''Request Timeout'' Undefined),
      \<lparr>timer = Fired, calls = [(API_BASE_URL p @ endpoint, request_init options b)]\<rparr>)"
  using assms
  by (simp add: request_def setTimeout_def request_try_def fetch_armed request_init_signal
      abort_error_def request_catch_def clearTimeout_def)

text \<open>The request once its body is serialised and a response arrives before the timer fires.\<close>

lemma request_response_first:
  assumes "request_body p (body options) = Inr b"
    and "net p (API_BASE_URL p @ endpoint) (request_init options b) = Responds t r"
    and "t < timer_delay (timeout_of options)"
  shows "request p endpoint options =
     (let w = \<lparr>timer = Cleared, calls = [(API_BASE_URL p @ endpoint, request_init options b)]\<rparr>
      in if \<not> ok r
         then (case errorData p r of
                 Resolved d \<Rightarrow> (Rejected (ApiError (status r) (statusText r) (Val d)), w)
               | Rejected e \<Rightarrow> (Rejected (request_catch e), w)
               | Pending \<Rightarrow> (Pending, w))
         else (case body_read r of
                 Pending \<Rightarrow> (Pending, w)
               | Rejected e \<Rightarrow> (Rejected (request_catch e), w)
               | Resolved text \<Rightarrow>
                   if text = [] then (Resolved (JObj []), w)
                   else (case parse p text of
                           Inl message \<Rightarrow> (Rejected (ApiError 0 message Undefined), w)
                         | Inr v \<Rightarrow> (Resolved v, w))))"
  using assms
  by (simp add: request_def setTimeout_def request_try_def fetch_armed request_init_signal
      settles_before_def request_catch_def clearTimeout_def response_text_def JSON_parse_def
      Let_def split: sum.splits promise.splits)

text \<open>\<open>catch(() => null)\<close>: the detail of an error response, by what its body gives.\<close>

lemma errorData_cases:
  "errorData p r =
     (case body_read r of
        Resolved text \<Rightarrow> (case parse p text of Inl message \<Rightarrow> Resolved JNull | Inr v \<Rightarrow> Resolved v)
      | Rejected e \<Rightarrow> Resolved JNull
      | Pending \<Rightarrow> Pending)"
  by (simp add: errorData_def response_json_def JSON_parse_def split: promise.splits sum.splits)

text \<open>The request once its body is serialised and the network fails before the timer fires.\<close>

lemma request_failure_first:
  assumes "request_body p (body options) = Inr b"
    and "net p (API_BASE_URL p @ endpoint) (request_init options b) = Fails t e"
    and "t < timer_delay (timeout_of options)"
  shows "request p endpoint options =
     (Rejected (request_catch e),
      \<lparr>timer = Cleared, calls = [(API_BASE_URL p @ endpoint, request_init options b)]\<rparr>)"
  using assms
  by (simp add: request_def setTimeout_def request_try_def fetch_armed request_init_signal
      settles_before_def clearTimeout_def)

text \<open>The request whose body cannot be serialised: no network call is made.\<close>

lemma request_stringify_throws:
  assumes "request_body p (body options) = Inl e"
  shows "request p endpoint options =
     (Rejected (request_catch e), \<lparr>timer = Cleared, calls = []\<rparr>)"
  using assms by (simp add: request_def setTimeout_def request_try_def clearTimeout_def)

lemma request_catch_ApiError: "\<exists>s t d. request_catch e = ApiError s t d"
  by (cases e) (simp_all add: request_catch_def)

text \<open>
  The generic path closes every failure into \<open>ApiError\<close>: a call that settles resolves
  or rejects with an \<open>ApiError\<close>. It stays pending only when a response has arrived and
  its body never finishes.
\<close>

lemma request_normalised:
  "(\<exists>v. fst (request p endpoint options) = Resolved v) \<or>
   (\<exists>s t d. fst (request p endpoint options) = Rejected (ApiError s t d)) \<or>
   fst (request p endpoint options) = Pending"
proof (cases "request_body p (body options)")
  case (Inl e)
  then show ?thesis
    using request_stringify_throws [of p options e endpoint] request_catch_ApiError [of e]
    by auto
next
  case (Inr b)
  let ?out = "net p (API_BASE_URL p @ endpoint) (request_init options b)"
  show ?thesis
  proof (cases "settles_before ?out (timer_delay (timeout_of options))")
    case False
    then show ?thesis using request_timer_first [OF Inr] by simp
  next
    case True
    show ?thesis
    proof (cases ?out)
      case (Responds t r)
      with True have "t < timer_delay (timeout_of options)" by (simp add: settles_before_def)
      from request_response_first [OF Inr Responds this] show ?thesis
        using request_catch_ApiError
        by (auto simp: Let_def errorData_cases split: sum.splits promise.splits)
    next
      case (Fails t e)
      with True have "t < timer_delay (timeout_of options)" by (simp add: settles_before_def)
      from request_failure_first [OF Inr Fails this] show ?thesis
        using request_catch_ApiError [of e] by auto
    next
      case Silent
      with True show ?thesis by (simp add: settles_before_def)
    qed
  qed
qed

text \<open>The network calls a request has issued when it settles.\<close>

lemma request_calls:
  "calls (snd (request p endpoint options)) =
     (case request_body p (body options) of
        Inl e \<Rightarrow> []
      | Inr b \<Rightarrow> [(API_BASE_URL p @ endpoint, request_init options b)])"
proof (cases "request_body p (body options)")
  case (Inl e)
  then show ?thesis
    using request_stringify_throws [of p options e endpoint] by simp
next
  case (Inr b)
  have "calls (snd (request p endpoint options)) =
      [(API_BASE_URL p @ endpoint, request_init options b)]"
    using Inr
    by (simp add: request_def setTimeout_def request_try_def fetch_armed request_init_signal
        clearTimeout_def Let_def split: sum.splits fetch_outcome.splits promise.splits)
  with Inr show ?thesis by simp
qed

subsection \<open>Normalisation of failures\<close>

text \<open>
  Claim C1. The claim asks that every call, of \<open>request\<close> and of \<open>uploadFile\<close>,
  settles with a parsed value or with an \<open>ApiError\<close>, and never passes a raw platform
  exception on. \<open>request\<close> passes none on: when it settles, it resolves or rejects
  with an \<open>ApiError\<close> (lemma \<open>request_normalised\<close>). \<open>uploadFile\<close> has no
  handler: when the network fails, its promise rejects with the \<open>TypeError\<close> of
  \<open>fetch\<close> itself, and when a 2xx body is not JSON, with the \<open>SyntaxError\<close> of
  \<open>response.json()\<close>.
\<close>

theorem uploadFile_raw_rejection:
  "fst (uploadFile (browser (Fails 3 (JsError ''TypeError'' ''Failed to fetch'')))
          ''/analyzer/upload'' (File ''data.csv'' 5242880) None)
     = Rejected (JsError ''TypeError'' ''Failed to fetch'') \<and>
   fst (uploadFile (browser (Responds 40 (reply 200 ''OK'' ''oops'')))
          ''/analyzer/upload'' (File ''data.csv'' 5242880) None)
     = Rejected (JsError ''SyntaxError'' ''Unexpected token'')"
  by (simp add: uploadFile_def fetch_unset browser_def reply_def ok_def response_json_def
      JSON_parse_def table_parse_def)

subsection \<open>The client-side timeout\<close>

text \<open>
  Claim C2. Take a call whose body is serialised (or absent), so that the network call
  is made, and let \<open>d\<close> be its timeout: the \<open>timeout\<close> option when the caller gave
  one, 30000 ms otherwise. If the network stays silent, or answers only when \<open>d\<close> ms
  have elapsed, the call rejects with \<open>ApiError(408, 'Request Timeout')\<close>, whatever the
  late response is. If the response arrives before \<open>d\<close> ms (\<open>d\<close> below \<open>2^31\<close>, the
  range of a timer's delay), the timer does not fire: it is cleared. A 408 that the
  server really sent, in time and with a body that is read, rejects with status 408,
  the server's status text and a \<open>data\<close> field that is \<open>null\<close> or the parsed body.
  The error of the client-side timeout has \<open>data\<close> \<open>undefined\<close>. So the two errors
  differ, and when the server's status text is also "Request Timeout" they differ in
  \<open>data\<close> only.
\<close>

theorem request_timeout_408:
  assumes "request_body p (body options) = Inr b"
    and "timeout options = Some d \<or> timeout options = None \<and> d = 30000"
  shows
    "(net p (API_BASE_URL p @ endpoint) (request_init options b) = Silent \<longrightarrow>
        fst (request p endpoint options) = Rejected (ApiError 408 ''Request Timeout'' Undefined)) \<and>
     (net p (API_BASE_URL p @ endpoint) (request_init options b) = Responds t r \<and> d \<le> t \<longrightarrow>
        fst (request p endpoint options) = Rejected (ApiError 408 ''Request Timeout'' Undefined)) \<and>
     (net p (API_BASE_URL p @ endpoint) (request_init options b) = Responds t r \<and>
      t < d \<and> d < 2147483648 \<longrightarrow>
        timer (snd (request p endpoint options)) = Cleared) \<and>
     (net p (API_BASE_URL p @ endpoint) (request_init options b) = Responds t r \<and>
      t < d \<and> d < 2147483648 \<and> status r = 408 \<longrightarrow>
        fst (request p endpoint options) \<noteq> Rejected (ApiError 408 ''Request Timeout'' Undefined) \<and>
        (body_read r \<noteq> Pending \<longrightarrow>
           (\<exists>v. fst (request p endpoint options) = Rejected (ApiError 408 (statusText r) (Val v)))))"
proof -
  let ?out = "net p (API_BASE_URL p @ endpoint) (request_init options b)"
  let ?res = "request p endpoint options"
  have d: "timeout_of options = d"
    using assms(2) by (auto simp: timeout_of_def)
  have late: "fst ?res = Rejected (ApiError 408 ''Request Timeout'' Undefined)"
    if "\<not> settles_before ?out (timer_delay d)"
    using request_timer_first [OF assms(1)] that d by simp
  have c1: "?out = Silent \<longrightarrow> fst ?res = Rejected (ApiError 408 ''Request Timeout'' Undefined)"
    using late by (simp add: settles_before_def)
  have c2: "?out = Responds t r \<and> d \<le> t \<longrightarrow>
      fst ?res = Rejected (ApiError 408 ''Request Timeout'' Undefined)"
  proof (intro impI, elim conjE)
    assume out: "?out = Responds t r" and "d \<le> t"
    with timer_delay_le [of d] have "\<not> t < timer_delay d" by simp
    with out show "fst ?res = Rejected (ApiError 408 ''Request Timeout'' Undefined)"
      using late by (simp add: settles_before_def)
  qed
  have c3: "?out = Responds t r \<and> t < d \<and> d < 2147483648 \<longrightarrow>
      timer (snd ?res) = Cleared"
  proof (intro impI, elim conjE)
    assume out: "?out = Responds t r" and t: "t < d" and "d < 2147483648"
    then have "t < timer_delay (timeout_of options)"
      using d by (simp add: timer_delay_small)
    from request_response_first [OF assms(1) out this]
    show "timer (snd ?res) = Cleared"
      by (simp add: Let_def split: promise.splits sum.splits)
  qed
  have c4: "?out = Responds t r \<and> t < d \<and> d < 2147483648 \<and> status r = 408 \<longrightarrow>
      fst ?res \<noteq> Rejected (ApiError 408 ''Request Timeout'' Undefined) \<and>
      (body_read r \<noteq> Pending \<longrightarrow>
         (\<exists>v. fst ?res = Rejected (ApiError 408 (statusText r) (Val v))))"
  proof (intro impI, elim conjE)
    assume out: "?out = Responds t r" and t: "t < d" and "d < 2147483648"
      and s: "status r = 408"
    then have t': "t < timer_delay (timeout_of options)"
      using d by (simp add: timer_delay_small)
    from s have "\<not> ok r" by (simp add: ok_def)
    with request_response_first [OF assms(1) out t'] s
    show "fst ?res \<noteq> Rejected (ApiError 408 ''Request Timeout'' Undefined) \<and>
      (body_read r \<noteq> Pending \<longrightarrow>
         (\<exists>v. fst ?res = Rejected (ApiError 408 (statusText r) (Val v))))"
      by (auto simp: errorData_cases split: promise.splits sum.splits)
  qed
  from c1 c2 c3 c4 show ?thesis by blast
qed

text \<open>
  The third worked scenario (timeout 50, a server that never answers); the same timeout
  with an answer after 100 ms, which is late, and after 20 ms, which is not; the default
  timeout with an answer after 30001 ms; and a server-sent 408 whose status text is the
  sentinel's: the two errors differ in \<open>data\<close> only.
\<close>

theorem request_timeout_408_witness:
  "fst (request (browser Silent) ''/slow'' (no_options\<lparr>timeout := Some 50\<rparr>))
     = Rejected (ApiError 408 ''Request Timeout'' Undefined) \<and>
   fst (request (browser (Responds 100 (reply 200 ''OK'' ''[]''))) ''/slow''
          (no_options\<lparr>timeout := Some 50\<rparr>))
     = Rejected (ApiError 408 ''Request Timeout'' Undefined) \<and>
   timer (snd (request (browser (Responds 20 (reply 200 ''OK'' ''[]''))) ''/slow''
          (no_options\<lparr>timeout := Some 50\<rparr>)))
     = Cleared \<and>
   fst (request (browser (Responds 30001 (reply 200 ''OK'' ''[]''))) ''/slow'' no_options)
     = Rejected (ApiError 408 ''Request Timeout'' Undefined) \<and>
   fst (request (browser (Responds 120 (reply 408 ''Request Timeout'' ''oops''))) ''/slow'' no_options)
     \<noteq> Rejected (ApiError 408 ''Request Timeout'' Undefined) \<and>
   (\<exists>v. fst (request (browser (Responds 120 (reply 408 ''Request Timeout'' ''oops''))) ''/slow''
            no_options)
     = Rejected (ApiError 408 ''Request Timeout'' (Val v)))"
proof -
  let ?o = "no_options\<lparr>timeout := Some 50\<rparr>"
  have b: "request_body (browser out) (body ?o) = Inr None" for out
    by (simp add: request_body_def no_options_def)
  have b': "request_body (browser out) (body no_options) = Inr None" for out
    by (simp add: request_body_def no_options_def)
  have c: "timeout ?o = Some 50 \<or> timeout ?o = None \<and> 50 = (30000::nat)"
    by simp
  have c': "timeout no_options = Some 30000 \<or> timeout no_options = None \<and> 30000 = (30000::nat)"
    by (simp add: no_options_def)
  have n: "net (browser out) url i = out" for out url i
    by (simp add: browser_def)
  have "fst (request (browser Silent) ''/slow'' ?o)
     = Rejected (ApiError 408 ''Request Timeout'' Undefined)"
    using request_timeout_408 [OF b [of Silent] c, where endpoint = "''/slow''"] n
    by simp
  moreover have "fst (request (browser (Responds 100 (reply 200 ''OK'' ''[]''))) ''/slow'' ?o)
     = Rejected (ApiError 408 ''Request Timeout'' Undefined)"
    using request_timeout_408 [OF b [of "Responds 100 (reply 200 ''OK'' ''[]'')"] c,
        where endpoint = "''/slow''" and t = 100 and r = "reply 200 ''OK'' ''[]''"] n
    by simp
  moreover have "timer (snd (request (browser (Responds 20 (reply 200 ''OK'' ''[]''))) ''/slow'' ?o))
     = Cleared"
    using request_timeout_408 [OF b [of "Responds 20 (reply 200 ''OK'' ''[]'')"] c,
        where endpoint = "''/slow''" and t = 20 and r = "reply 200 ''OK'' ''[]''"] n
    by simp
  moreover have "fst (request (browser (Responds 30001 (reply 200 ''OK'' ''[]''))) ''/slow'' no_options)
     = Rejected (ApiError 408 ''Request Timeout'' Undefined)"
    using request_timeout_408 [OF b' [of "Responds 30001 (reply 200 ''OK'' ''[]'')"] c',
        where endpoint = "''/slow''" and t = 30001 and r = "reply 200 ''OK'' ''[]''"] n
    by simp
  moreover have "fst (request (browser (Responds 120 (reply 408 ''Request Timeout'' ''oops''))) ''/slow''
        no_options)
       \<noteq> Rejected (ApiError 408 ''Request Timeout'' Undefined) \<and>
     (\<exists>v. fst (request (browser (Responds 120 (reply 408 ''Request Timeout'' ''oops''))) ''/slow''
            no_options)
       = Rejected (ApiError 408 ''Request Timeout'' (Val v)))"
    using request_timeout_408 [OF b' [of "Responds 120 (reply 408 ''Request Timeout'' ''oops'')"] c',
        where endpoint = "''/slow''" and t = 120 and r = "reply 408 ''Request Timeout'' ''oops''"] n
    by (simp add: reply_def)
  ultimately show ?thesis by simp
qed

subsection \<open>Responses\<close>

text \<open>
  Claim C3. Let a response arrive before the timer fires (the timeout is below \<open>2^31\<close>,
  the range of a timer's delay), with a status outside 200-299, and let the read of
  its body come to an end. Then the call rejects with an \<open>ApiError\<close> that carries the
  status and the status text of the response. Its detail is the parsed body when the
  body parses as JSON, and \<open>null\<close> (no detail, no second error) when the body does not
  parse or its read fails.
\<close>

theorem request_http_error:
  assumes "request_body p (body options) = Inr b"
    and "net p (API_BASE_URL p @ endpoint) (request_init options b) = Responds t r"
    and "t < timeout_of options"
    and "timeout_of options < 2147483648"
    and "\<not> ok r"
  shows
    "(body_read r = Resolved body_text \<and> parse p body_text = Inr v \<longrightarrow>
        fst (request p endpoint options) =
          Rejected (ApiError (status r) (statusText r) (Val v))) \<and>
     (body_read r = Resolved body_text \<and> parse p body_text = Inl message \<longrightarrow>
        fst (request p endpoint options) =
          Rejected (ApiError (status r) (statusText r) (Val JNull))) \<and>
     (body_read r = Rejected e \<longrightarrow>
        fst (request p endpoint options) =
          Rejected (ApiError (status r) (statusText r) (Val JNull)))"
proof -
  from assms(3,4) have "t < timer_delay (timeout_of options)"
    by (simp add: timer_delay_small)
  from request_response_first [OF assms(1,2) this] assms(5) show ?thesis
    by (simp add: errorData_cases)
qed

text \<open>
  A 401 whose body parses (to the array \<open>[1]\<close>), a 500 whose body does not, and a 502
  whose body cannot be read.
\<close>

theorem request_http_error_witness:
  "\<not> ok (reply 401 ''Unauthorized'' ''[1]'') \<and>
   fst (api_post (browser (Responds 120 (reply 401 ''Unauthorized'' ''[1]''))) ''/auth/login''
          (Val (JObj [])) no_options)
     = Rejected (ApiError 401 ''Unauthorized'' (Val (JArr [JNum 1]))) \<and>
   fst (api_post (browser (Responds 120 (reply 500 ''Internal Server Error'' ''oops'')))
          ''/auth/login'' (Val (JObj [])) no_options)
     = Rejected (ApiError 500 ''Internal Server Error'' (Val JNull)) \<and>
   fst (api_post (browser (Responds 120
            \<lparr>status = 502, statusText = ''Bad Gateway'',
             body_read = Rejected (JsError ''TypeError'' ''network error'')\<rparr>))
          ''/auth/login'' (Val (JObj [])) no_options)
     = Rejected (ApiError 502 ''Bad Gateway'' (Val JNull))"
proof -
  let ?o = "no_options\<lparr>http_method := Some ''POST'', body := Val (JObj [])\<rparr>"
  let ?g = "\<lparr>status = 502, statusText = ''Bad Gateway'',
             body_read = Rejected (JsError ''TypeError'' ''network error'')\<rparr>"
  have b: "request_body (browser out) (body ?o) = Inr (Some ''{}'')" for out
    by (simp add: request_body_def browser_def)
  have d: "120 < timeout_of ?o" "timeout_of ?o < 2147483648"
    by (simp_all add: timeout_of_def no_options_def)
  have n: "net (browser out) url i = out" for out url i
    by (simp add: browser_def)
  have k: "\<not> ok (reply 401 ''Unauthorized'' ''[1]'')" "\<not> ok (reply 500 ''Internal Server Error'' ''oops'')"
    "\<not> ok ?g"
    by (simp_all add: ok_def reply_def)
  have "fst (request (browser (Responds 120 (reply 401 ''Unauthorized'' ''[1]''))) ''/auth/login'' ?o)
     = Rejected (ApiError 401 ''Unauthorized'' (Val (JArr [JNum 1])))"
    using request_http_error [OF b n d k(1), where body_text = "''[1]''" and v = "JArr [JNum 1]"]
    by (simp add: reply_def browser_def table_parse_def)
  moreover have "fst (request (browser (Responds 120 (reply 500 ''Internal Server Error'' ''oops'')))
          ''/auth/login'' ?o)
     = Rejected (ApiError 500 ''Internal Server Error'' (Val JNull))"
    using request_http_error [OF b n d k(2), where body_text = "''oops''" and message = "''Unexpected token''"]
    by (simp add: reply_def browser_def table_parse_def)
  moreover have "fst (request (browser (Responds 120 ?g)) ''/auth/login'' ?o)
     = Rejected (ApiError 502 ''Bad Gateway'' (Val JNull))"
    using request_http_error [OF b n d k(3), where e = "JsError ''TypeError'' ''network error''"]
    by simp
  ultimately show ?thesis using k(1) by (simp add: api_post_def)
qed

text \<open>
  Claim C4. When a response with a status in 200-299 arrives before the timer fires
  (the timeout is below \<open>2^31\<close>) and its body is read, the call resolves: with the
  empty object \<open>{}\<close> when the body is empty, and with the value the body parses to
  otherwise.
\<close>

theorem request_success:
  assumes "request_body p (body options) = Inr b"
    and "net p (API_BASE_URL p @ endpoint) (request_init options b) = Responds t r"
    and "t < timeout_of options"
    and "timeout_of options < 2147483648"
    and "ok r"
    and "body_read r = Resolved body_text"
  shows "(body_text = [] \<longrightarrow> fst (request p endpoint options) = Resolved (JObj [])) \<and>
         (body_text \<noteq> [] \<and> parse p body_text = Inr v \<longrightarrow> fst (request p endpoint options) = Resolved v)"
proof -
  from assms(3,4) have "t < timer_delay (timeout_of options)"
    by (simp add: timer_delay_small)
  from request_response_first [OF assms(1,2) this] assms(5,6) show ?thesis
    by simp
qed

text \<open>
  The first worked scenario (\<open>GET /user/datasets\<close> answered by \<open>[]\<close> with status 200)
  and a 204 with an empty body.
\<close>

theorem request_success_witness:
  "ok (reply 200 ''OK'' ''[]'') \<and>
   fst (api_get (browser (Responds 120 (reply 200 ''OK'' ''[]''))) ''/user/datasets'' no_options)
     = Resolved (JArr []) \<and>
   fst (api_get (browser (Responds 120 (reply 204 ''No Content'' ''''))) ''/user/datasets'' no_options)
     = Resolved (JObj [])"
proof -
  let ?o = "no_options\<lparr>http_method := Some ''GET''\<rparr>"
  have b: "request_body (browser out) (body ?o) = Inr None" for out
    by (simp add: request_body_def no_options_def)
  have d: "120 < timeout_of ?o" "timeout_of ?o < 2147483648"
    by (simp_all add: timeout_of_def no_options_def)
  have n: "net (browser out) url i = out" for out url i
    by (simp add: browser_def)
  have k: "ok (reply 200 ''OK'' ''[]'')" "ok (reply 204 ''No Content'' '''')"
    by (simp_all add: ok_def reply_def)
  have r: "body_read (reply s t x) = Resolved x" for s t x
    by (simp add: reply_def)
  have "fst (request (browser (Responds 120 (reply 200 ''OK'' ''[]''))) ''/user/datasets'' ?o)
     = Resolved (JArr [])"
    using request_success [OF b n d k(1) r, where v = "JArr []"]
    by (simp add: browser_def table_parse_def)
  moreover have "fst (request (browser (Responds 120 (reply 204 ''No Content'' ''''))) ''/user/datasets'' ?o)
     = Resolved (JObj [])"
    using request_success [OF b n d k(2) r]
    by simp
  ultimately show ?thesis using k(1) by (simp add: api_get_def)
qed

text \<open>
  Claim C5. When a response with a status in 200-299 arrives before the timer fires
  (the timeout is below \<open>2^31\<close>) and its body is read, is not empty and does not parse,
  the call rejects with an \<open>ApiError\<close> of status 0 whose status text is the message of
  the parser's \<open>SyntaxError\<close>.
\<close>

theorem request_malformed_json:
  assumes "request_body p (body options) = Inr b"
    and "net p (API_BASE_URL p @ endpoint) (request_init options b) = Responds t r"
    and "t < timeout_of options"
    and "timeout_of options < 2147483648"
    and "ok r"
    and "body_read r = Resolved body_text"
    and "body_text \<noteq> []"
    and "parse p body_text = Inl message"
  shows "fst (request p endpoint options) = Rejected (ApiError 0 message Undefined)"
proof -
  from assms(3,4) have "t < timer_delay (timeout_of options)"
    by (simp add: timer_delay_small)
  from request_response_first [OF assms(1,2) this] assms(5-8) show ?thesis
    by simp
qed

theorem request_malformed_json_witness:
  "table_parse ''oops'' = Inl ''Unexpected token'' \<and>
   fst (api_get (browser (Responds 120 (reply 200 ''OK'' ''oops''))) ''/user/datasets'' no_options)
     = Rejected (ApiError 0 ''Unexpected token'' Undefined)"
proof -
  let ?o = "no_options\<lparr>http_method := Some ''GET''\<rparr>"
  have b: "request_body (browser out) (body ?o) = Inr None" for out
    by (simp add: request_body_def no_options_def)
  have d: "120 < timeout_of ?o" "timeout_of ?o < 2147483648"
    by (simp_all add: timeout_of_def no_options_def)
  have n: "net (browser out) url i = out" for out url i
    by (simp add: browser_def)
  have k: "ok (reply 200 ''OK'' ''oops'')"
    by (simp add: ok_def reply_def)
  have r: "body_read (reply s t x) = Resolved x" for s t x
    by (simp add: reply_def)
  have m: "parse (browser out) ''oops'' = Inl ''Unexpected token''" for out
    by (simp add: browser_def table_parse_def)
  have "fst (request (browser (Responds 120 (reply 200 ''OK'' ''oops''))) ''/user/datasets'' ?o)
     = Rejected (ApiError 0 ''Unexpected token'' Undefined)"
    using request_malformed_json [OF b n d k r _ m]
    by simp
  then show ?thesis by (simp add: api_get_def table_parse_def)
qed

subsection \<open>Transport errors\<close>

text \<open>
  Claim C6, as stated, fails: the handler recognises the timeout by the name
  \<open>AbortError\<close> alone. A call that the user agent aborts after 5 ms, for a reason of
  its own and long before the 30000 ms of the timer, is reported as
  \<open>ApiError(408, 'Request Timeout')\<close> and not with status 0 and the message of the
  exception; the timer had not fired, the handler cleared it.
\<close>

theorem abort_for_other_reason_is_408:
  "5 < timeout_of no_options \<and>
   fst (request (browser (Fails 5 (JsError ''AbortError'' ''The operation was aborted.'')))
          ''/user/datasets'' no_options)
     = Rejected (ApiError 408 ''Request Timeout'' Undefined) \<and>
   fst (request (browser (Fails 5 (JsError ''AbortError'' ''The operation was aborted.'')))
          ''/user/datasets'' no_options)
     \<noteq> Rejected (ApiError 0 ''The operation was aborted.'' Undefined) \<and>
   timer (snd (request (browser (Fails 5 (JsError ''AbortError'' ''The operation was aborted.'')))
          ''/user/datasets'' no_options))
     = Cleared"
proof -
  have b: "request_body (browser out) (body no_options) = Inr None" for out
    by (simp add: request_body_def no_options_def)
  have d: "5 < timeout_of no_options"
    by (simp add: timeout_of_def no_options_def)
  have d': "5 < timer_delay (timeout_of no_options)"
    by (simp add: timeout_of_def no_options_def timer_delay_def)
  have n: "net (browser out) url i = out" for out url i
    by (simp add: browser_def)
  show ?thesis
    using request_failure_first [OF b n d'] d
    by (simp add: request_catch_def)
qed

text \<open>
  Claim C6, amended. When the network call fails before the timer fires (the timeout
  is below \<open>2^31\<close>, the range of a timer's delay), an \<open>Error\<close> whose name is not
  \<open>AbortError\<close> is rejected as \<open>ApiError\<close> with status 0 and the message of the
  exception, and a thrown value that is no \<open>Error\<close> as \<open>ApiError\<close> with status 0 and
  "Unknown Error". An \<open>Error\<close> named \<open>AbortError\<close> is rejected as the 408 of the
  timeout, whatever caused it.
\<close>

theorem request_transport_error:
  assumes "request_body p (body options) = Inr b"
    and "net p (API_BASE_URL p @ endpoint) (request_init options b) = Fails t e"
    and "t < timeout_of options"
    and "timeout_of options < 2147483648"
  shows
    "(e = JsError name message \<and> name \<noteq> ''AbortError'' \<longrightarrow>
        fst (request p endpoint options) = Rejected (ApiError 0 message Undefined)) \<and>
     (e = NonError v \<longrightarrow>
        fst (request p endpoint options) = Rejected (ApiError 0 ''Unknown Error'' Undefined)) \<and>
     (e = JsError ''AbortError'' message \<longrightarrow>
        fst (request p endpoint options) = Rejected (ApiError 408 ''Request Timeout'' Undefined))"
proof -
  from assms(3,4) have "t < timer_delay (timeout_of options)"
    by (simp add: timer_delay_small)
  from request_failure_first [OF assms(1,2) this] show ?thesis
    by (simp add: request_catch_def)
qed

theorem request_transport_error_witness:
  "fst (request (browser (Fails 3 (JsError ''TypeError'' ''Failed to fetch''))) ''/auth/me'' no_options)
     = Rejected (ApiError 0 ''Failed to fetch'' Undefined) \<and>
   fst (request (browser (Fails 3 (NonError (Val (JStr ''boom''))))) ''/auth/me'' no_options)
     = Rejected (ApiError 0 ''Unknown Error'' Undefined) \<and>
   fst (request (browser (Fails 3 (JsError ''AbortError'' ''Fetch is aborted''))) ''/auth/me'' no_options)
     = Rejected (ApiError 408 ''Request Timeout'' Undefined)"
proof -
  have b: "request_body (browser out) (body no_options) = Inr None" for out
    by (simp add: request_body_def no_options_def)
  have d: "3 < timeout_of no_options" "timeout_of no_options < 2147483648"
    by (simp_all add: timeout_of_def no_options_def)
  have n: "net (browser out) url i = out" for out url i
    by (simp add: browser_def)
  have "fst (request (browser (Fails 3 (JsError ''TypeError'' ''Failed to fetch''))) ''/auth/me'' no_options)
     = Rejected (ApiError 0 ''Failed to fetch'' Undefined)"
    using request_transport_error [OF b n d, where name = "''TypeError''" and message = "''Failed to fetch''"]
    by simp
  moreover have "fst (request (browser (Fails 3 (NonError (Val (JStr ''boom''))))) ''/auth/me'' no_options)
     = Rejected (ApiError 0 ''Unknown Error'' Undefined)"
    using request_transport_error [OF b n d, where v = "Val (JStr ''boom'')"]
    by simp
  moreover have "fst (request (browser (Fails 3 (JsError ''AbortError'' ''Fetch is aborted''))) ''/auth/me'' no_options)
     = Rejected (ApiError 408 ''Request Timeout'' Undefined)"
    using request_transport_error [OF b n d, where message = "''Fetch is aborted''"]
    by simp
  ultimately show ?thesis by simp
qed

subsection \<open>The timer\<close>

text \<open>
  Claim C7. Whenever a call of \<open>request\<close> has run as far as it can, no timer is
  pending: on every path the timer armed at the start has been cleared, except on the
  path of the client-side timeout, where it is the timer's firing that ended the call.
  A timer that has fired at the end belongs to a call that rejected with the 408 of the
  timeout.
\<close>

theorem request_timer_disarmed:
  "timer (snd (request p endpoint options)) \<in> {Cleared, Fired} \<and>
   timer (snd (request p endpoint options)) \<noteq> Armed d \<and>
   (timer (snd (request p endpoint options)) = Fired \<longrightarrow>
      fst (request p endpoint options) = Rejected (ApiError 408 ''Request Timeout'' Undefined))"
proof (cases "request_body p (body options)")
  case (Inl e)
  then show ?thesis
    using request_stringify_throws [of p options e endpoint] by simp
next
  case (Inr b)
  let ?out = "net p (API_BASE_URL p @ endpoint) (request_init options b)"
  show ?thesis
  proof (cases "settles_before ?out (timer_delay (timeout_of options))")
    case False
    then show ?thesis using request_timer_first [OF Inr] by simp
  next
    case True
    show ?thesis
    proof (cases ?out)
      case (Responds t r)
      with True have "t < timer_delay (timeout_of options)" by (simp add: settles_before_def)
      from request_response_first [OF Inr Responds this] show ?thesis
        by (simp add: Let_def split: sum.splits promise.splits)
    next
      case (Fails t e)
      with True have "t < timer_delay (timeout_of options)" by (simp add: settles_before_def)
      from request_failure_first [OF Inr Fails this] show ?thesis by simp
    next
      case Silent
      with True show ?thesis by (simp add: settles_before_def)
    qed
  qed
qed

text \<open>
  The four exit paths: success, HTTP error, client-side timeout, transport error; and a
  response whose body never finishes, which leaves the call pending with its timer
  cleared.
\<close>

theorem request_timer_disarmed_witness:
  "timer (snd (request (browser (Responds 120 (reply 200 ''OK'' ''[]''))) ''/user/datasets'' no_options))
     = Cleared \<and>
   timer (snd (request (browser (Responds 120 (reply 404 ''Not Found'' ''''))) ''/user/datasets'' no_options))
     = Cleared \<and>
   timer (snd (request (browser Silent) ''/user/datasets'' no_options)) = Fired \<and>
   fst (request (browser Silent) ''/user/datasets'' no_options)
     = Rejected (ApiError 408 ''Request Timeout'' Undefined) \<and>
   timer (snd (request (browser (Fails 3 (JsError ''TypeError'' ''Failed to fetch'')))
     ''/user/datasets'' no_options)) = Cleared \<and>
   fst (request (browser (Responds 120 (stalled 200 ''OK''))) ''/user/datasets'' no_options)
     = Pending \<and>
   timer (snd (request (browser (Responds 120 (stalled 200 ''OK''))) ''/user/datasets'' no_options))
     = Cleared"
proof -
  have b: "request_body (browser out) (body no_options) = Inr None" for out
    by (simp add: request_body_def no_options_def)
  have d: "3 < timer_delay (timeout_of no_options)" "120 < timer_delay (timeout_of no_options)"
    by (simp_all add: timeout_of_def no_options_def timer_delay_def)
  have n: "net (browser out) url i = out" for out url i
    by (simp add: browser_def)
  have s: "\<not> settles_before (net (browser Silent) url i) k" for url i k
    by (simp add: browser_def settles_before_def)
  have f: "timer (snd (request (browser Silent) ''/user/datasets'' no_options)) = Fired"
    using request_timer_first [OF b s] by simp
  have "fst (request (browser Silent) ''/user/datasets'' no_options)
     = Rejected (ApiError 408 ''Request Timeout'' Undefined)"
    using request_timer_disarmed [of "browser Silent" "''/user/datasets''" no_options] f
    by simp
  then show ?thesis
    using f request_response_first [OF b n d(2)] request_failure_first [OF b n d(1)]
    by (simp add: Let_def ok_def reply_def stalled_def browser_def table_parse_def
        errorData_cases API_BASE_URL_def)
qed

subsection \<open>The network call that \<open>request\<close> issues\<close>

text \<open>
  Claim C8, as stated, fails in two places. A body that is present but falsy is not
  serialised: \<open>api.post('/generator/form', 0)\<close> sends a request with no body at all,
  although \<open>0\<close> is a value and its serialisation is \<open>0\<close>. And caller headers win
  only when they are a plain object: the spread of a \<open>Headers\<close> instance or of an
  array of pairs copies no header, so a caller's \<open>Content-Type: text/plain\<close> given in
  one of these forms is lost and \<open>application/json\<close> is sent.
\<close>

theorem falsy_body_and_header_forms_not_sent:
  "Val (JNum 0) \<noteq> Undefined \<and>
   table_stringify (Val (JNum 0)) = Inr ''0'' \<and>
   map (init_body \<circ> snd)
     (calls (snd (api_post (browser (Responds 120 (reply 200 ''OK'' ''{}''))) ''/generator/form''
        (Val (JNum 0)) no_options)))
     = [None] \<and>
   headers instance_options = Some (HeadersInstance [(''Content-Type'', ''text/plain'')]) \<and>
   map (sent_header ''Content-Type'' \<circ> snd)
     (calls (snd (request (browser Silent) ''/generator/form'' instance_options)))
     = [Some ''application/json''] \<and>
   headers pairs_options = Some (PairArray [(''Content-Type'', ''text/plain'')]) \<and>
   map (sent_header ''Content-Type'' \<circ> snd)
     (calls (snd (request (browser Silent) ''/generator/form'' pairs_options)))
     = [Some ''application/json''] \<and>
   map (sent_header ''0'' \<circ> snd)
     (calls (snd (request (browser Silent) ''/generator/form'' pairs_options)))
     = [Some ''Content-Type,text/plain'']"
  by (simp add: api_post_def request_calls request_body_def request_init_def
      instance_options_def pairs_options_def plain_options_def browser_def sent_header_def
      request_headers_def spread_headers_def decimal.simps)

text \<open>
  Claim C8, amended. A call of \<open>request\<close> issues no network call when serialising a
  truthy body throws, and exactly one otherwise. That call goes to the base URL
  followed by the endpoint, with the caller's method, with credentials \<open>include\<close>
  whatever the caller passed, and with the body serialised when it is truthy and no
  body when it is falsy. When the caller gives no headers, the header object holds
  \<open>Content-Type: application/json\<close> alone; when the caller gives headers as a plain
  object, every header of the caller has the caller's value and \<open>Content-Type\<close> is
  \<open>application/json\<close> unless the caller set it.
\<close>

theorem request_call_shape:
  "(\<exists>e. truthy (body options) \<and> stringify p (body options) = Inl e \<and>
        calls (snd (request p endpoint options)) = []) \<or>
   (\<exists>init hs.
        calls (snd (request p endpoint options)) = [(API_BASE_URL p @ endpoint, init)] \<and>
        init_method init = http_method options \<and>
        init_credentials init = Some ''include'' \<and>
        init_headers init = Some hs \<and>
        (headers options = None \<longrightarrow> hs = [''Content-Type'' \<mapsto> ''application/json'']) \<and>
        (\<forall>m. headers options = Some (PlainObject m) \<longrightarrow>
           (\<forall>k. hs k =
              (case m k of
                 Some v \<Rightarrow> Some v
               | None \<Rightarrow> if k = ''Content-Type'' then Some ''application/json'' else None))) \<and>
        ((\<not> truthy (body options) \<and> init_body init = None) \<or>
         (\<exists>s. truthy (body options) \<and> stringify p (body options) = Inr s \<and>
              init_body init = Some (Text s))))"
proof (cases "request_body p (body options)")
  case (Inl e)
  then show ?thesis
    by (auto simp: request_calls request_body_def split: if_splits sum.splits)
next
  case (Inr b)
  have "headers options = None \<longrightarrow>
      request_headers (headers options) = [''Content-Type'' \<mapsto> ''application/json'']"
    by (simp add: request_headers_def spread_headers_def)
  moreover have "\<forall>m. headers options = Some (PlainObject m) \<longrightarrow>
      (\<forall>k. request_headers (headers options) k =
           (case m k of
              Some v \<Rightarrow> Some v
            | None \<Rightarrow> if k = ''Content-Type'' then Some ''application/json'' else None))"
    by (simp add: request_headers_def spread_headers_def map_add_def split: option.splits)
  moreover have "(\<not> truthy (body options) \<and> init_body (request_init options b) = None) \<or>
         (\<exists>s. truthy (body options) \<and> stringify p (body options) = Inr s \<and>
              init_body (request_init options b) = Some (Text s))"
    using Inr by (auto simp: request_body_def request_init_def split: if_splits sum.splits)
  ultimately show ?thesis
    using Inr by (simp add: request_calls request_init_def)
qed

text \<open>
  A \<open>POST\<close> whose caller sets \<open>Content-Type\<close> to \<open>text/plain\<close> in a plain object
  and asks for credentials \<open>omit\<close>.
\<close>

theorem request_call_shape_witness:
  "\<exists>init hs.
     calls (snd (request (browser Silent) ''/generator/form'' plain_options))
       = [(''/api/generator/form'', init)] \<and>
     init_method init = Some ''POST'' \<and>
     init_credentials init = Some ''include'' \<and>
     init_headers init = Some hs \<and>
     hs ''Content-Type'' = Some ''text/plain'' \<and>
     init_body init = Some (Text ''{}'')"
  using request_call_shape [of plain_options "browser Silent" "''/generator/form''"]
  by (auto simp: plain_options_def browser_def API_BASE_URL_def)

text \<open>
  Claim C10. When the \<open>body\<close> option is falsy (\<open>0\<close>, the empty string, \<open>false\<close>,
  \<open>null\<close>, as well as \<open>undefined\<close> and \<open>NaN\<close>), the one network call is made with no
  body, and the serialiser is not consulted. When it is truthy and serialises, the call
  carries the serialisation.
\<close>

theorem request_falsy_body_not_sent:
  "\<not> truthy (Val (JNum 0)) \<and> \<not> truthy (Val (JStr '''')) \<and>
   \<not> truthy (Val (JBool False)) \<and> \<not> truthy (Val JNull) \<and>
   (\<not> truthy (body options) \<longrightarrow>
      (\<exists>init. calls (snd (request p endpoint options)) = [(API_BASE_URL p @ endpoint, init)] \<and>
         init_body init = None)) \<and>
   (truthy (body options) \<and> stringify p (body options) = Inr s \<longrightarrow>
      (\<exists>init. calls (snd (request p endpoint options)) = [(API_BASE_URL p @ endpoint, init)] \<and>
         init_body init = Some (Text s)))"
  by (simp add: request_calls request_body_def request_init_def)

theorem request_falsy_body_not_sent_witness:
  "map (init_body \<circ> snd)
     (calls (snd (request (browser Silent) ''/x'' (no_options\<lparr>body := Val (JStr '''')\<rparr>)))) = [None] \<and>
   map (init_body \<circ> snd)
     (calls (snd (request (browser Silent) ''/x'' (no_options\<lparr>body := Val (JBool False)\<rparr>)))) = [None] \<and>
   map (init_body \<circ> snd)
     (calls (snd (request (browser Silent) ''/x'' (no_options\<lparr>body := Val JNull\<rparr>)))) = [None] \<and>
   map (init_body \<circ> snd)
     (calls (snd (request (browser Silent) ''/x'' (no_options\<lparr>body := Val (JBool True)\<rparr>))))
       = [Some (Text ''true'')]"
proof -
  have "map (init_body \<circ> snd)
     (calls (snd (request (browser Silent) ''/x'' (no_options\<lparr>body := Val (JStr '''')\<rparr>)))) = [None]"
    using request_falsy_body_not_sent
      [of "no_options\<lparr>body := Val (JStr '''')\<rparr>" "browser Silent" "''/x''"]
    by auto
  moreover have "map (init_body \<circ> snd)
     (calls (snd (request (browser Silent) ''/x'' (no_options\<lparr>body := Val (JBool False)\<rparr>)))) = [None]"
    using request_falsy_body_not_sent
      [of "no_options\<lparr>body := Val (JBool False)\<rparr>" "browser Silent" "''/x''"]
    by auto
  moreover have "map (init_body \<circ> snd)
     (calls (snd (request (browser Silent) ''/x'' (no_options\<lparr>body := Val JNull\<rparr>)))) = [None]"
    using request_falsy_body_not_sent
      [of "no_options\<lparr>body := Val JNull\<rparr>" "browser Silent" "''/x''"]
    by auto
  moreover have "map (init_body \<circ> snd)
     (calls (snd (request (browser Silent) ''/x'' (no_options\<lparr>body := Val (JBool True)\<rparr>))))
       = [Some (Text ''true'')]"
    using request_falsy_body_not_sent
      [of "no_options\<lparr>body := Val (JBool True)\<rparr>" "browser Silent" "''/x''" "''true''"]
    by (auto simp: browser_def)
  ultimately show ?thesis by simp
qed

subsection \<open>\<open>uploadFile\<close>\<close>

text \<open>
  Claim C9. \<open>uploadFile\<close> issues exactly one network call: a \<open>POST\<close> to the base URL
  followed by the endpoint, with credentials \<open>include\<close>, with no header object, and
  with a form whose first part is the file under the name \<open>file\<close> and whose further
  parts are the extra fields, one each, in their order. It arms no timer and passes no
  abort signal: a server that stays silent leaves the call pending, and a response is
  accepted however late it comes. A response whose status is outside 200-299 and whose
  body read comes to an end rejects with \<open>ApiError(status, statusText, detail)\<close>,
  detail being the parsed body, or \<open>null\<close> when the body does not parse or its read
  fails. For a response with such a status, the call ends as a call of \<open>request\<close>
  does that receives the same response before its timer fires (with a timeout below
  \<open>2^31\<close>, the range of a timer's delay). A response with a status in 200-299
  resolves with its parsed body.
\<close>

theorem uploadFile_behaviour:
  "calls (snd (uploadFile p endpoint f extra)) =
     [(API_BASE_URL p @ endpoint, upload_init f extra)] \<and>
   upload_init f extra =
     \<lparr>init_method = Some ''POST'', init_signal = None, init_credentials = Some ''include'',
      init_headers = None,
      init_body = Some (FormData ((''file'', FilePart f) #
        map (\<lambda>(key, v). (key, FieldPart v)) (case extra of None \<Rightarrow> [] | Some entries \<Rightarrow> entries)))\<rparr> \<and>
   timer (snd (uploadFile p endpoint f extra)) = Unset \<and>
   (net p (API_BASE_URL p @ endpoint) (upload_init f extra) = Silent \<longrightarrow>
      fst (uploadFile p endpoint f extra) = Pending) \<and>
   (net p (API_BASE_URL p @ endpoint) (upload_init f extra) = Responds t r \<and> \<not> ok r \<and>
    body_read r = Resolved body_text \<longrightarrow>
      fst (uploadFile p endpoint f extra) =
        Rejected (ApiError (status r) (statusText r)
          (case parse p body_text of Inr v \<Rightarrow> Val v | Inl message \<Rightarrow> Val JNull))) \<and>
   (net p (API_BASE_URL p @ endpoint) (upload_init f extra) = Responds t r \<and> \<not> ok r \<and>
    body_read r = Rejected e \<longrightarrow>
      fst (uploadFile p endpoint f extra) =
        Rejected (ApiError (status r) (statusText r) (Val JNull))) \<and>
   (net p (API_BASE_URL p @ endpoint) (upload_init f extra) = Responds t r \<and> \<not> ok r \<and>
    request_body p (body options) = Inr b \<and>
    net p (API_BASE_URL p @ endpoint') (request_init options b) = Responds t' r \<and>
    t' < timeout_of options \<and> timeout_of options < 2147483648 \<longrightarrow>
      fst (uploadFile p endpoint f extra) = fst (request p endpoint' options)) \<and>
   (net p (API_BASE_URL p @ endpoint) (upload_init f extra) = Responds t r \<and> ok r \<and>
    body_read r = Resolved body_text \<and> parse p body_text = Inr w \<longrightarrow>
      fst (uploadFile p endpoint f extra) = Resolved w)"
proof -
  let ?out = "net p (API_BASE_URL p @ endpoint) (upload_init f extra)"
  let ?up = "uploadFile p endpoint f extra"
  have c1: "calls (snd ?up) = [(API_BASE_URL p @ endpoint, upload_init f extra)]"
    by (simp add: uploadFile_def fetch_unset split: fetch_outcome.splits promise.splits)
  have c2: "upload_init f extra =
     \<lparr>init_method = Some ''POST'', init_signal = None, init_credentials = Some ''include'',
      init_headers = None,
      init_body = Some (FormData ((''file'', FilePart f) #
        map (\<lambda>(key, v). (key, FieldPart v)) (case extra of None \<Rightarrow> [] | Some entries \<Rightarrow> entries)))\<rparr>"
    by (simp add: upload_init_def formData_def split: option.splits)
  have c3: "timer (snd ?up) = Unset"
    by (simp add: uploadFile_def fetch_unset split: fetch_outcome.splits promise.splits)
  have c4: "?out = Silent \<longrightarrow> fst ?up = Pending"
    by (simp add: uploadFile_def fetch_unset)
  have rej: "fst ?up =
      (case errorData p r of
         Resolved d \<Rightarrow> Rejected (ApiError (status r) (statusText r) (Val d))
       | Rejected e \<Rightarrow> Rejected e
       | Pending \<Rightarrow> Pending)"
    if "?out = Responds t r" "\<not> ok r"
    using that by (simp add: uploadFile_def fetch_unset split: promise.splits)
  have c5: "?out = Responds t r \<and> \<not> ok r \<and> body_read r = Resolved body_text \<longrightarrow>
      fst ?up = Rejected (ApiError (status r) (statusText r)
          (case parse p body_text of Inr v \<Rightarrow> Val v | Inl message \<Rightarrow> Val JNull))"
    using rej by (simp add: errorData_cases split: sum.splits)
  have c6: "?out = Responds t r \<and> \<not> ok r \<and> body_read r = Rejected e \<longrightarrow>
      fst ?up = Rejected (ApiError (status r) (statusText r) (Val JNull))"
    using rej by (simp add: errorData_cases)
  have c7: "?out = Responds t r \<and> \<not> ok r \<and>
    request_body p (body options) = Inr b \<and>
    net p (API_BASE_URL p @ endpoint') (request_init options b) = Responds t' r \<and>
    t' < timeout_of options \<and> timeout_of options < 2147483648 \<longrightarrow>
      fst ?up = fst (request p endpoint' options)"
  proof (intro impI, elim conjE)
    assume u: "?out = Responds t r" and k: "\<not> ok r"
      and b: "request_body p (body options) = Inr b"
      and g: "net p (API_BASE_URL p @ endpoint') (request_init options b) = Responds t' r"
      and d: "t' < timeout_of options" "timeout_of options < 2147483648"
    from d have "t' < timer_delay (timeout_of options)"
      by (simp add: timer_delay_small)
    from request_response_first [OF b g this] k rej [OF u k]
    show "fst ?up = fst (request p endpoint' options)"
      by (simp add: errorData_cases split: promise.splits sum.splits)
  qed
  have c8: "?out = Responds t r \<and> ok r \<and>
    body_read r = Resolved body_text \<and> parse p body_text = Inr w \<longrightarrow> fst ?up = Resolved w"
    by (simp add: uploadFile_def fetch_unset response_json_def JSON_parse_def)
  from c1 c2 c3 c4 c5 c6 c7 c8 show ?thesis by blast
qed

text \<open>
  The fifth worked scenario: a file of 5 MB and two extra fields give a form of three
  parts and no header object. The same upload against a silent server stays pending,
  against a server answering 413 it rejects as \<open>request\<close> does, and an answer after
  an hour is still taken.
\<close>

theorem uploadFile_behaviour_witness:
  "map snd (calls (snd (uploadFile (browser Silent) ''/analyzer/upload'' (File ''data.csv'' 5242880)
       (Some [(''prompt'', ''sales''), (''mode'', ''fast'')]))))
     = [\<lparr>init_method = Some ''POST'', init_signal = None, init_credentials = Some ''include'',
         init_headers = None,
         init_body = Some (FormData [(''file'', FilePart (File ''data.csv'' 5242880)),
           (''prompt'', FieldPart ''sales''), (''mode'', FieldPart ''fast'')])\<rparr>] \<and>
   fst (uploadFile (browser Silent) ''/analyzer/upload'' (File ''data.csv'' 5242880) None) = Pending \<and>
   fst (uploadFile (browser (Responds 120 (reply 413 ''Payload Too Large'' ''oops'')))
          ''/analyzer/upload'' (File ''data.csv'' 5242880) None)
     = Rejected (ApiError 413 ''Payload Too Large'' (Val JNull)) \<and>
   fst (uploadFile (browser (Responds 120 (reply 413 ''Payload Too Large'' ''oops'')))
          ''/analyzer/upload'' (File ''data.csv'' 5242880) None)
     = fst (request (browser (Responds 120 (reply 413 ''Payload Too Large'' ''oops'')))
          ''/analyzer/upload'' no_options) \<and>
   fst (uploadFile (browser (Responds 3600000 (reply 200 ''OK'' ''[1]'')))
          ''/analyzer/upload'' (File ''data.csv'' 5242880) None)
     = Resolved (JArr [JNum 1])"
proof -
  let ?f = "File ''data.csv'' 5242880"
  let ?r = "reply 413 ''Payload Too Large'' ''oops''"
  let ?s = "reply 200 ''OK'' ''[1]''"
  have n: "net (browser out) url i = out" for out url i
    by (simp add: browser_def)
  have b: "request_body (browser out) (body no_options) = Inr None" for out
    by (simp add: request_body_def no_options_def)
  have d: "120 < timeout_of no_options" "timeout_of no_options < 2147483648"
    by (simp_all add: timeout_of_def no_options_def)
  have k: "\<not> ok ?r" "ok ?s"
    by (simp_all add: ok_def reply_def)
  have r: "body_read (reply s t x) = Resolved x" for s t x
    by (simp add: reply_def)
  have j: "parse (browser out) ''oops'' = Inl ''Unexpected token''"
    "parse (browser out) ''[1]'' = Inr (JArr [JNum 1])" for out
    by (simp_all add: browser_def table_parse_def)
  have "map snd (calls (snd (uploadFile (browser Silent) ''/analyzer/upload'' ?f
       (Some [(''prompt'', ''sales''), (''mode'', ''fast'')]))))
     = [\<lparr>init_method = Some ''POST'', init_signal = None, init_credentials = Some ''include'',
         init_headers = None,
         init_body = Some (FormData [(''file'', FilePart ?f),
           (''prompt'', FieldPart ''sales''), (''mode'', FieldPart ''fast'')])\<rparr>]"
    using uploadFile_behaviour [where p = "browser Silent" and endpoint = "''/analyzer/upload''"
        and f = ?f and extra = "Some [(''prompt'', ''sales''), (''mode'', ''fast'')]"]
    by simp
  moreover have "fst (uploadFile (browser Silent) ''/analyzer/upload'' ?f None) = Pending"
    using uploadFile_behaviour [where p = "browser Silent" and endpoint = "''/analyzer/upload''"
        and f = ?f and extra = None] n
    by simp
  moreover have "fst (uploadFile (browser (Responds 120 ?r)) ''/analyzer/upload'' ?f None)
     = Rejected (ApiError 413 ''Payload Too Large'' (Val JNull))"
    using uploadFile_behaviour [where p = "browser (Responds 120 ?r)"
        and endpoint = "''/analyzer/upload''" and f = ?f and extra = None and t = 120 and r = ?r
        and body_text = "''oops''"] n k r j
    by (simp add: reply_def)
  moreover have "fst (uploadFile (browser (Responds 120 ?r)) ''/analyzer/upload'' ?f None)
     = fst (request (browser (Responds 120 ?r)) ''/analyzer/upload'' no_options)"
    using uploadFile_behaviour [where p = "browser (Responds 120 ?r)"
        and endpoint = "''/analyzer/upload''" and f = ?f and extra = None and t = 120 and r = ?r
        and options = no_options and b = None and endpoint' = "''/analyzer/upload''" and t' = 120]
      n k(1) b d
    by blast
  moreover have "fst (uploadFile (browser (Responds 3600000 ?s)) ''/analyzer/upload'' ?f None)
     = Resolved (JArr [JNum 1])"
    using uploadFile_behaviour [where p = "browser (Responds 3600000 ?s)"
        and endpoint = "''/analyzer/upload''" and f = ?f and extra = None and t = 3600000
        and r = ?s and body_text = "''[1]''" and w = "JArr [JNum 1]"] n k r j
    by simp
  ultimately show ?thesis by simp
qed

end
